theory Spec2Isabelle
  imports Main "HOL-Library.Word"
begin

section \<open>JavaScript strings and values\<close>

text \<open>
  A JavaScript string is a sequence of 16-bit code units. String literals of the source are
  written \<open>js ''...''\<close>; all of them are ASCII.
\<close>

type_synonym code_unit = "16 word"
type_synonym jsstring = "code_unit list"

definition js :: "string \<Rightarrow> jsstring" where
  "js s = map (\<lambda>c. of_nat (of_char c)) s"

text \<open>\<^verbatim>\<open>s.startsWith(p)\<close>\<close>

definition startsWith :: "jsstring \<Rightarrow> jsstring \<Rightarrow> bool" where
  "startsWith s p = (take (length p) s = p)"

text \<open>\<^verbatim>\<open>s.indexOf(p)\<close>: the index of the first occurrence of \<open>p\<close>, or \<open>-1\<close>.\<close>

fun indexOf :: "jsstring \<Rightarrow> jsstring \<Rightarrow> int" where
  "indexOf [] p = (if p = [] then 0 else - 1)"
| "indexOf (c # cs) p =
     (if startsWith (c # cs) p then 0
      else (let i = indexOf cs p in if i < 0 then - 1 else i + 1))"

text \<open>
  \<^verbatim>\<open>s.slice(start)\<close>: a negative \<open>start\<close> counts from the end of the string
  (and is clamped at the beginning).
\<close>

definition slice :: "jsstring \<Rightarrow> int \<Rightarrow> jsstring" where
  "slice s start =
     (if start < 0 then drop (nat (int (length s) + start)) s else drop (nat start) s)"

text \<open>
  The values a property such as \<^verbatim>\<open>userId\<close> can hold, as far as the truthiness test
  \<^verbatim>\<open>if (v)\<close> tells them apart.
\<close>

datatype jsvalue =
    Undefined
  | Null
  | Boolean bool
  | Number int
  | NaN
  | String jsstring
  | Object

fun truthy :: "jsvalue \<Rightarrow> bool" where
  "truthy Undefined = False"
| "truthy Null = False"
| "truthy (Boolean b) = b"
| "truthy (Number n) = (n \<noteq> 0)"
| "truthy NaN = False"
| "truthy (String s) = (s \<noteq> [])"
| "truthy Object = True"

datatype error =
    UserInputError jsstring
  | TypeError jsstring
  | MulterError jsstring
  | Error jsstring


section \<open>The regular expression of the file filter\<close>

text \<open>
  The filter tests the original file name with
  \<^verbatim>\<open>/.*\.(gif|jpe?g|bmp|png|pdf|docx|doc)$/gim\<close>.
  The pattern is kept as data; \<open>rests r s\<close> lists, in the order a backtracking matcher tries
  them, the remainders of \<open>s\<close> after a match of \<open>r\<close> at the front of \<open>s\<close>.

  Flag \<^verbatim>\<open>m\<close>: \<^verbatim>\<open>$\<close> holds at the end of the input and before every line terminator.
  Flag \<^verbatim>\<open>i\<close>: a pattern character matches an input character when both have the same
  canonical form. All the pattern's characters are ASCII, and ECMAScript never maps a
  non-ASCII character to an ASCII one, so the canonical form is the ASCII upper case.
  The dot matches every character but a line terminator.
\<close>

definition isLineTerminator :: "code_unit \<Rightarrow> bool" where
  "isLineTerminator c = (c = 0x000A \<or> c = 0x000D \<or> c = 0x2028 \<or> c = 0x2029)"

definition canonicalize :: "code_unit \<Rightarrow> code_unit" where
  "canonicalize c = (if 0x61 \<le> c \<and> c \<le> 0x7A then c - 0x20 else c)"

datatype regex =
    Eps                    \<comment> \<open>the empty pattern\<close>
  | Chr code_unit          \<comment> \<open>a pattern character\<close>
  | DotStar                \<comment> \<open>\<^verbatim>\<open>.*\<close>\<close>
  | Opt regex              \<comment> \<open>\<^verbatim>\<open>r?\<close>\<close>
  | Seq regex regex
  | Alt regex regex        \<comment> \<open>\<^verbatim>\<open>r|s\<close>\<close>
  | Eol                    \<comment> \<open>\<^verbatim>\<open>$\<close>\<close>

fun dotStar :: "jsstring \<Rightarrow> jsstring list" where
  "dotStar [] = [[]]"
| "dotStar (c # cs) = (if isLineTerminator c then [c # cs] else dotStar cs @ [c # cs])"

fun rests :: "regex \<Rightarrow> jsstring \<Rightarrow> jsstring list" where
  "rests Eps s = [s]"
| "rests (Chr p) s =
     (case s of [] \<Rightarrow> [] | c # cs \<Rightarrow> if canonicalize c = canonicalize p then [cs] else [])"
| "rests DotStar s = dotStar s"
| "rests (Opt r) s = rests r s @ [s]"
| "rests (Seq r1 r2) s = concat (map (rests r2) (rests r1 s))"
| "rests (Alt r1 r2) s = rests r1 s @ rests r2 s"
| "rests Eol s =
     (case s of [] \<Rightarrow> [s] | c # cs \<Rightarrow> if isLineTerminator c then [s] else [])"

text \<open>A word of the pattern, character by character.\<close>

fun lit :: "jsstring \<Rightarrow> regex" where
  "lit [] = Eps"
| "lit (p # ps) = Seq (Chr p) (lit ps)"

definition extensions :: regex where
  "extensions =
     Alt (lit (js ''gif''))
    (Alt (Seq (lit (js ''jp'')) (Seq (Opt (Chr 0x65)) (Chr 0x67)))
    (Alt (lit (js ''bmp''))
    (Alt (lit (js ''png''))
    (Alt (lit (js ''pdf''))
    (Alt (lit (js ''docx''))
         (lit (js ''doc'')))))))"

definition pattern :: regex where
  "pattern = Seq DotStar (Seq (Chr 0x2E) (Seq extensions Eol))"

text \<open>
  \<^verbatim>\<open>String(name).match(re)\<close> with the flag \<^verbatim>\<open>g\<close> is the array of all matches, or
  \<^verbatim>\<open>null\<close> when there is none; the source only tests it for truthiness. The search tries
  every start position from left to right.
\<close>

fun match :: "regex \<Rightarrow> jsstring \<Rightarrow> bool" where
  "match r [] = (rests r [] \<noteq> [])"
| "match r (c # cs) = (rests r (c # cs) \<noteq> [] \<or> match r cs)"


section \<open>The upload filter\<close>

text \<open>
  The part of multer's file object that the source reads, and the bytes of the upload.
\<close>

record "file" =
  fieldname :: jsstring
  originalname :: jsstring
  mimetype :: jsstring
  content :: "8 word list"

text \<open>
  \<^verbatim>\<open>getUser\<close> comes from \<^verbatim>\<open>./utils\<close>, which is not part of the sources at hand: it is a
  parameter. \<open>getUser req\<close> is \<open>Inr u\<close> when \<^verbatim>\<open>getUser(req)\<close> returns an object, \<open>userId u\<close>
  being the value of its property \<^verbatim>\<open>userId\<close> (\<open>Undefined\<close> when it has none), and
  \<open>Inl e\<close> when evaluating \<^verbatim>\<open>getUser(req).userId\<close> throws \<open>e\<close>.
\<close>

record user =
  userId :: jsvalue

text \<open>
  The two ways the source calls multer's callback: \<^verbatim>\<open>cb(error)\<close> and
  \<^verbatim>\<open>cb(null, include)\<close>. A callback returns, or throws (\<open>Inl\<close>).

  \<open>fileFilter\<close> follows the source statement by statement: the calls \<^verbatim>\<open>cb(null, true)\<close>
  and \<^verbatim>\<open>cb(null, false)\<close> are inside the \<^verbatim>\<open>try\<close> block, so an exception thrown below
  them is caught as well and handed to \<^verbatim>\<open>cb(error)\<close>.
\<close>

datatype cb_args = CbError error | CbInclude bool

definition fileFilter ::
  "('req \<Rightarrow> error + user) \<Rightarrow> 'req \<Rightarrow> file \<Rightarrow> (cb_args \<Rightarrow> error + 'a) \<Rightarrow> error + 'a" where
  "fileFilter getUser req file cb =
     (case (case getUser req of
              Inl e \<Rightarrow> Inl e
            | Inr u \<Rightarrow>
                if truthy (userId u) then
                  if match pattern (originalname file) then cb (CbInclude True)
                  else Inl (UserInputError (js ''Unsupported file type''))
                else cb (CbInclude False))
      of Inl error \<Rightarrow> cb (CbError error)
       | Inr r \<Rightarrow> Inr r)"


section \<open>Storage: destination and file name\<close>

text \<open>
  \<^verbatim>\<open>destination\<close> calls \<^verbatim>\<open>cb(null, dir)\<close> with one of the two directories, or
  \<^verbatim>\<open>cb(null, false)\<close>: \<open>Some dir\<close> and \<open>None\<close>.
\<close>

definition destination :: "file \<Rightarrow> jsstring option" where
  "destination file =
     (if startsWith (mimetype file) (js ''image'') then Some (js ''./public/img/'')
      else if startsWith (mimetype file)
                (js ''application/vnd.openxmlformats-officedocument.wordprocessingml.document'')
              \<or> startsWith (mimetype file) (js ''application/msword'')
              \<or> startsWith (mimetype file) (js ''application/pdf'')
        then Some (js ''./public/document/'')
      else None)"

text \<open>
  \<^verbatim>\<open>new Date().getTime()\<close> is an integral number of milliseconds, \<open>now\<close>; inside a
  template literal it is written in decimal, with a minus sign before 1970.
\<close>

fun digits :: "nat \<Rightarrow> jsstring" where
  "digits n = (if n < 10 then [of_nat (48 + n)] else digits (n div 10) @ [of_nat (48 + n mod 10)])"

declare digits.simps [simp del]

definition numberToString :: "int \<Rightarrow> jsstring" where
  "numberToString i = (if i < 0 then js ''-'' @ digits (nat (- i)) else digits (nat i))"

definition filename :: "int \<Rightarrow> file \<Rightarrow> jsstring" where
  "filename now file = fieldname file @ js ''-'' @ numberToString now @ js ''-'' @ originalname file"


section \<open>Paths and file URLs (Node's \<^verbatim>\<open>path\<close> and \<^verbatim>\<open>url\<close> modules, POSIX)\<close>

fun splitWhen :: "(code_unit \<Rightarrow> bool) \<Rightarrow> jsstring \<Rightarrow> jsstring list" where
  "splitWhen P [] = [[]]"
| "splitWhen P (c # cs) =
     (if P c then [] # splitWhen P cs
      else (case splitWhen P cs of [] \<Rightarrow> [[c]] | l # ls \<Rightarrow> (c # l) # ls))"

definition isSlash :: "code_unit \<Rightarrow> bool" where
  "isSlash c = (c = 0x2F)"

fun joinWith :: "jsstring \<Rightarrow> jsstring list \<Rightarrow> jsstring" where
  "joinWith sep [] = []"
| "joinWith sep [x] = x"
| "joinWith sep (x # xs) = x @ sep @ joinWith sep xs"

text \<open>
  \<^verbatim>\<open>normalizeString\<close>: empty segments and \<^verbatim>\<open>.\<close> are dropped, \<^verbatim>\<open>..\<close> removes the
  segment before it; where there is none, it stays if the path is relative.
\<close>

fun normalizeSegments :: "bool \<Rightarrow> jsstring list \<Rightarrow> jsstring list \<Rightarrow> jsstring list" where
  "normalizeSegments allowAboveRoot res [] = res"
| "normalizeSegments allowAboveRoot res (seg # segs) =
     normalizeSegments allowAboveRoot
       (if seg = [] \<or> seg = js ''.'' then res
        else if seg = js ''..'' then
          (if res \<noteq> [] \<and> last res \<noteq> js ''..'' then butlast res
           else if allowAboveRoot then res @ [seg]
           else res)
        else res @ [seg])
       segs"

definition normalizeString :: "jsstring \<Rightarrow> bool \<Rightarrow> jsstring" where
  "normalizeString path allowAboveRoot =
     joinWith (js ''/'') (normalizeSegments allowAboveRoot [] (splitWhen isSlash path))"

definition isAbsolute :: "jsstring \<Rightarrow> bool" where
  "isAbsolute path = startsWith path (js ''/'')"

definition endsWithSlash :: "jsstring \<Rightarrow> bool" where
  "endsWithSlash path = (path \<noteq> [] \<and> isSlash (last path))"

definition normalize :: "jsstring \<Rightarrow> jsstring" where
  "normalize path =
     (if path = [] then js ''.''
      else (let p = normalizeString path (\<not> isAbsolute path) in
        if p = [] then
          (if isAbsolute path then js ''/'' else if endsWithSlash path then js ''./'' else js ''.'')
        else (if isAbsolute path then js ''/'' else []) @ p
               @ (if endsWithSlash path then js ''/'' else [])))"

text \<open>
  \<^verbatim>\<open>path.join(a, b)\<close>; an argument that is not a string makes it throw, here with the
  message of Node 12 and later for \<^verbatim>\<open>false\<close>.
\<close>

definition join :: "jsstring option \<Rightarrow> jsstring \<Rightarrow> error + jsstring" where
  "join a b =
     (case a of
        None \<Rightarrow>
          Inl (TypeError (js ''The '' @ [0x22] @ js ''path'' @ [0x22]
                 @ js '' argument must be of type string. Received type boolean (false)''))
      | Some a \<Rightarrow>
          Inr (if a = [] \<and> b = [] then js ''.''
               else normalize (joinWith (js ''/'') (filter (\<lambda>x. x \<noteq> []) [a, b]))))"

text \<open>\<^verbatim>\<open>path.resolve(path)\<close> in the working directory \<open>cwd\<close>, an absolute path.\<close>

definition resolve :: "jsstring \<Rightarrow> jsstring \<Rightarrow> jsstring" where
  "resolve cwd path =
     js ''/'' @ normalizeString (if isAbsolute path then path else cwd @ js ''/'' @ path) False"

text \<open>
  \<^verbatim>\<open>url.pathToFileURL(path).toString()\<close>: the resolved path, percent-encoded. Node
  replaces \<^verbatim>\<open>%\<close>, the backslash, line feed, carriage return and tab itself; setting the
  URL's path then encodes the characters of the URL standard's path percent-encode set,
  the non-ASCII ones through UTF-8 (an unpaired surrogate as U+FFFD). This is the set of
  Node 16; later versions of Node encode the five characters \<^verbatim>\<open>[ ] ^ | ~\<close> as well.
\<close>

fun codePoints :: "jsstring \<Rightarrow> nat list" where
  "codePoints [] = []"
| "codePoints [c] = [if 0xD800 \<le> c \<and> c \<le> 0xDFFF then 0xFFFD else unat c]"
| "codePoints (c # d # cs) =
     (if 0xD800 \<le> c \<and> c \<le> 0xDBFF \<and> 0xDC00 \<le> d \<and> d \<le> 0xDFFF
        then (0x10000 + (unat c - 0xD800) * 0x400 + (unat d - 0xDC00)) # codePoints cs
      else (if 0xD800 \<le> c \<and> c \<le> 0xDFFF then 0xFFFD else unat c) # codePoints (d # cs))"

definition utf8 :: "nat \<Rightarrow> nat list" where
  "utf8 cp =
     (if cp < 0x80 then [cp]
      else if cp < 0x800 then [0xC0 + cp div 0x40, 0x80 + cp mod 0x40]
      else if cp < 0x10000 then
        [0xE0 + cp div 0x1000, 0x80 + cp div 0x40 mod 0x40, 0x80 + cp mod 0x40]
      else [0xF0 + cp div 0x40000, 0x80 + cp div 0x1000 mod 0x40,
            0x80 + cp div 0x40 mod 0x40, 0x80 + cp mod 0x40])"

definition hexDigit :: "nat \<Rightarrow> code_unit" where
  "hexDigit d = of_nat (if d < 10 then 48 + d else 55 + d)"

definition percentByte :: "nat \<Rightarrow> jsstring" where
  "percentByte b = [0x25, hexDigit (b div 16), hexDigit (b mod 16)]"

definition inPathPercentEncodeSet :: "nat \<Rightarrow> bool" where
  "inPathPercentEncodeSet cp =
     (cp \<le> 0x20 \<or> cp \<ge> 0x7F \<or> cp \<in> {0x22, 0x23, 0x3C, 0x3E, 0x3F, 0x60, 0x7B, 0x7D})"

definition encodePathChar :: "nat \<Rightarrow> jsstring" where
  "encodePathChar cp =
     (if cp = 0x25 \<or> cp = 0x5C \<or> inPathPercentEncodeSet cp
        then concat (map percentByte (utf8 cp))
      else [of_nat cp])"

definition pathToFileURL :: "jsstring \<Rightarrow> jsstring \<Rightarrow> jsstring" where
  "pathToFileURL cwd path =
     (let resolved = resolve cwd path;
          resolved = (if endsWithSlash path \<and> \<not> endsWithSlash resolved
                        then resolved @ js ''/'' else resolved)
      in js ''file://'' @ concat (map encodePathChar (codePoints resolved)))"


section \<open>The upload endpoints\<close>

text \<open>
  The disk maps a path to the bytes of the file there. multer's disk storage asks
  \<open>destination\<close> and \<open>filename\<close>, joins their answers and writes the upload to that path;
  the information it leaves in \<^verbatim>\<open>req.file\<close> includes the path. Nothing is written when
  \<^verbatim>\<open>path.join\<close> throws; the exception passes through the file filter, which is on the
  call stack. The storage directories are taken to exist and to be writable.
\<close>

type_synonym disk = "jsstring \<rightharpoonup> 8 word list"

record stored =
  stored_destination :: "jsstring option"
  stored_filename :: jsstring
  stored_path :: jsstring

datatype upload_result =
    Attached stored      \<comment> \<open>\<^verbatim>\<open>req.file\<close> is set\<close>
  | NotAttached          \<comment> \<open>\<^verbatim>\<open>req.file\<close> is undefined\<close>
  | Aborted error        \<comment> \<open>multer is handed the error; the handler does not run\<close>

definition handleFile :: "int \<Rightarrow> disk \<Rightarrow> file \<Rightarrow> error + disk \<times> upload_result" where
  "handleFile now disk file =
     (let dest = destination file; name = filename now file in
      case join dest name of
        Inl e \<Rightarrow> Inl e
      | Inr finalPath \<Rightarrow>
          Inr (disk(finalPath \<mapsto> content file),
               Attached \<lparr>stored_destination = dest,
                         stored_filename = name,
                         stored_path = finalPath\<rparr>))"

text \<open>The callback that multer hands to the file filter.\<close>

definition multer_cb :: "int \<Rightarrow> disk \<Rightarrow> file \<Rightarrow> cb_args \<Rightarrow> error + disk \<times> upload_result" where
  "multer_cb now disk file args =
     (case args of
        CbError err \<Rightarrow> Inr (disk, Aborted err)
      | CbInclude includeFile \<Rightarrow>
          if includeFile then handleFile now disk file else Inr (disk, NotAttached))"

text \<open>
  \<^verbatim>\<open>upload.single(field)\<close> on a request with at most one file part: a part without a
  file name is skipped, a part under another field name is refused before the filter runs.
\<close>

definition upload_single ::
  "jsstring \<Rightarrow> ('req \<Rightarrow> error + user) \<Rightarrow> int \<Rightarrow> disk \<Rightarrow> 'req \<Rightarrow> file option
     \<Rightarrow> disk \<times> upload_result" where
  "upload_single field getUser now disk req part =
     (case part of
        None \<Rightarrow> (disk, NotAttached)
      | Some file \<Rightarrow>
          if originalname file = [] then (disk, NotAttached)
          else if fieldname file \<noteq> field
            then (disk, Aborted (MulterError (js ''LIMIT_UNEXPECTED_FILE'')))
          else (case fileFilter getUser req file (multer_cb now disk file) of
                  Inl e \<Rightarrow> (disk, Aborted e)
                | Inr r \<Rightarrow> r))"

text \<open>
  The two route handlers: what \<^verbatim>\<open>res.send\<close> is called with. A request that multer
  aborts sends no reference: \<open>Failed e\<close> stands for its end, with the error \<open>e\<close> passed on
  or, when the error came out of a write that multer had already begun, with no response
  at all.
\<close>

definition img_handler :: "jsstring \<Rightarrow> stored option \<Rightarrow> jsstring" where
  "img_handler cwd req_file =
     (case req_file of
        Some f \<Rightarrow>
          (let fileURL = pathToFileURL cwd (stored_path f)
           in slice fileURL (indexOf fileURL (js ''img'')))
      | None \<Rightarrow> js ''Image not attached'')"

definition document_handler :: "jsstring \<Rightarrow> stored option \<Rightarrow> jsstring" where
  "document_handler cwd req_file =
     (case req_file of
        Some f \<Rightarrow>
          (let fileURL = pathToFileURL cwd (stored_path f)
           in slice fileURL (indexOf fileURL (js ''document'')))
      | None \<Rightarrow> js ''Document not attached'')"

datatype response = Sent jsstring | Failed error

definition respond :: "(stored option \<Rightarrow> jsstring) \<Rightarrow> disk \<times> upload_result \<Rightarrow> disk \<times> response" where
  "respond handler r =
     (case r of
        (disk, Attached f) \<Rightarrow> (disk, Sent (handler (Some f)))
      | (disk, NotAttached) \<Rightarrow> (disk, Sent (handler None))
      | (disk, Aborted e) \<Rightarrow> (disk, Failed e))"

definition post_img ::
  "('req \<Rightarrow> error + user) \<Rightarrow> jsstring \<Rightarrow> int \<Rightarrow> disk \<Rightarrow> 'req \<Rightarrow> file option
     \<Rightarrow> disk \<times> response" where
  "post_img getUser cwd now disk req part =
     respond (img_handler cwd) (upload_single (js ''image'') getUser now disk req part)"

definition post_document ::
  "('req \<Rightarrow> error + user) \<Rightarrow> jsstring \<Rightarrow> int \<Rightarrow> disk \<Rightarrow> 'req \<Rightarrow> file option
     \<Rightarrow> disk \<times> response" where
  "post_document getUser cwd now disk req part =
     respond (document_handler cwd) (upload_single (js ''document'') getUser now disk req part)"


section \<open>The allow-list in the words of the specification\<close>

text \<open>
  The lines of a string are its pieces between line terminators; a line is accepted when it
  ends, whatever the case of its letters, with a dot and one of the eight extensions. The
  extension of a file name is what follows its last dot.
\<close>

definition splitLines :: "jsstring \<Rightarrow> jsstring list" where
  "splitLines s = splitWhen isLineTerminator s"

definition allowed :: "jsstring list" where
  "allowed = [js ''gif'', js ''jpg'', js ''jpeg'', js ''bmp'', js ''png'', js ''pdf'',
              js ''docx'', js ''doc'']"

definition ci_eq :: "jsstring \<Rightarrow> jsstring \<Rightarrow> bool" where
  "ci_eq s p = (map canonicalize s = map canonicalize p)"

definition endsWith_ci :: "jsstring \<Rightarrow> jsstring \<Rightarrow> bool" where
  "endsWith_ci line p =
     (length p \<le> length line \<and> ci_eq (drop (length line - length p) line) p)"

definition line_accepted :: "jsstring \<Rightarrow> bool" where
  "line_accepted line = list_ex (\<lambda>e. endsWith_ci line (js ''.'' @ e)) allowed"

definition spec_accepts :: "jsstring \<Rightarrow> bool" where
  "spec_accepts s = list_ex line_accepted (splitLines s)"

definition spec_extension :: "jsstring \<Rightarrow> jsstring option" where
  "spec_extension name =
     (if 0x2E \<in> set name then Some (rev (takeWhile (\<lambda>c. c \<noteq> 0x2E) (rev name))) else None)"

definition spec_extension_allowed :: "jsstring \<Rightarrow> bool" where
  "spec_extension_allowed name =
     (case spec_extension name of None \<Rightarrow> False | Some e \<Rightarrow> list_ex (ci_eq e) allowed)"

text \<open>The number that a string of decimal digits denotes.\<close>

definition decimalValue :: "jsstring \<Rightarrow> nat" where
  "decimalValue s = foldl (\<lambda>a d. 10 * a + (unat d - 48)) 0 s"


section \<open>Auxiliary notions\<close>

text \<open>
  The pattern after its \<^verbatim>\<open>.*\<close>, and the search for a place where that part matches.
\<close>

definition tail :: regex where
  "tail = Seq (Chr 0x2E) (Seq extensions Eol)"

fun anyTail :: "jsstring \<Rightarrow> bool" where
  "anyTail [] = (rests tail [] \<noteq> [])"
| "anyTail (c # cs) = (rests tail (c # cs) \<noteq> [] \<or> anyTail cs)"

definition ci_prefix :: "jsstring \<Rightarrow> jsstring \<Rightarrow> bool" where
  "ci_prefix p t = (length p \<le> length t \<and> ci_eq (take (length p) t) p)"

definition eol :: "jsstring \<Rightarrow> bool" where
  "eol t = (case t of [] \<Rightarrow> True | c # cs \<Rightarrow> isLineTerminator c)"

definition is_extension :: "jsstring \<Rightarrow> bool" where
  "is_extension l = list_ex (\<lambda>e. ci_eq l (js ''.'' @ e)) allowed"


section \<open>Properties\<close>

lemma js_simps:
  "js [] = []"
  "js (c # s) = of_nat (of_char c) # js s"
  by (simp_all add: js_def)

lemmas regex_eval = pattern_def extensions_def js_simps canonicalize_def isLineTerminator_def

lemmas path_eval = join_def normalize_def normalizeString_def isSlash_def isAbsolute_def
  endsWithSlash_def startsWith_def resolve_def

subsection \<open>The regular expression and the lines of the file name\<close>

lemma self_in_dotStar: "s \<in> set (dotStar s)"
  by (induction s) auto

lemma dotStar_anyTail: "r \<in> set (dotStar s) \<Longrightarrow> rests tail r \<noteq> [] \<Longrightarrow> anyTail s"
  by (induction s) (auto split: if_splits)

lemma rests_pattern: "rests pattern s \<noteq> [] \<longleftrightarrow> (\<exists>r\<in>set (dotStar s). rests tail r \<noteq> [])"
  unfolding pattern_def tail_def rests.simps(3,5) by simp

lemma match_anyTail: "match pattern s = anyTail s"
proof (induction s)
  case Nil
  show ?case by (simp add: rests_pattern del: rests.simps)
next
  case (Cons c cs)
  have "rests pattern (c # cs) \<noteq> [] \<or> anyTail cs \<longleftrightarrow> rests tail (c # cs) \<noteq> [] \<or> anyTail cs"
    using self_in_dotStar [of "c # cs"] dotStar_anyTail [of _ "c # cs"]
    unfolding rests_pattern by (auto simp del: rests.simps dotStar.simps)
  with Cons show ?case by (simp del: rests.simps)
qed


lemma ci_prefix_Nil [simp]: "ci_prefix [] t"
  by (simp add: ci_prefix_def ci_eq_def)

lemma ci_prefix_Cons:
  "ci_prefix (p # ps) t \<longleftrightarrow> (case t of [] \<Rightarrow> False | c # cs \<Rightarrow> canonicalize c = canonicalize p \<and> ci_prefix ps cs)"
  by (cases t) (auto simp: ci_prefix_def ci_eq_def)

lemma rests_Eol: "rests Eol t = (if eol t then [t] else [])"
  by (simp add: eol_def split: list.splits)

lemma rests_Chr: "rests (Chr p) s = (if ci_prefix [p] s then [drop 1 s] else [])"
  by (cases s) (simp_all add: ci_prefix_Cons [of p "[]"])

lemma canonicalize_dot: "canonicalize c = canonicalize 0x2E \<longleftrightarrow> c = 0x2E"
  by (auto simp: canonicalize_def)

lemma rests_lit: "rests (lit p) s = (if ci_prefix p s then [drop (length p) s] else [])"
proof (induction p arbitrary: s)
  case Nil
  show ?case by simp
next
  case (Cons p ps)
  then show ?case
    by (cases s) (simp_all add: ci_prefix_Cons [of p ps])
qed

lemma rests_jpeg:
  "rests (Seq (lit (js ''jp'')) (Seq (Opt (Chr 0x65)) (Chr 0x67))) s
     = rests (lit (js ''jpeg'')) s @ rests (lit (js ''jpg'')) s"
  by (simp add: js_simps split: list.splits)

lemma rests_extensions:
  "rests extensions s = concat (map (\<lambda>e. if ci_prefix e s then [drop (length e) s] else [])
     [js ''gif'', js ''jpeg'', js ''jpg'', js ''bmp'', js ''png'', js ''pdf'', js ''docx'', js ''doc''])"
  unfolding extensions_def rests.simps(6) rests_jpeg
  by (simp add: rests_lit js_simps del: rests.simps lit.simps)

lemma rests_tail:
  "rests tail t \<noteq> [] \<longleftrightarrow> (\<exists>e\<in>set allowed. ci_prefix (js ''.'' @ e) t \<and> eol (drop (Suc (length e)) t))"
proof (cases t)
  case Nil
  then show ?thesis by (simp add: tail_def js_simps ci_prefix_Cons)
next
  case (Cons c cs)
  have "rests tail (c # cs) \<noteq> [] \<longleftrightarrow> c = 0x2E \<and> (\<exists>r\<in>set (rests extensions cs). eol r)"
    by (auto simp add: tail_def rests_Eol canonicalize_dot simp del: rests.simps(7))
  also have "\<dots> \<longleftrightarrow> (\<exists>e\<in>set allowed. ci_prefix (js ''.'' @ e) (c # cs) \<and> eol (drop (Suc (length e)) (c # cs)))"
    unfolding rests_extensions allowed_def
    by (simp add: js_simps ci_prefix_Cons [of _ _ "c # cs"] canonicalize_dot) blast
  finally show ?thesis using Cons by simp
qed


lemma canonicalize_lineTerminator: "isLineTerminator c \<Longrightarrow> canonicalize c = c"
  by (auto simp: isLineTerminator_def canonicalize_def)

lemma ci_eq_Nil [simp]: "ci_eq s [] \<longleftrightarrow> s = []" "ci_eq [] p \<longleftrightarrow> p = []"
  by (auto simp: ci_eq_def)

lemma ci_eq_Cons [simp]: "ci_eq (c # cs) (x # xs) \<longleftrightarrow> canonicalize c = canonicalize x \<and> ci_eq cs xs"
  by (auto simp: ci_eq_def)

lemma prefix_eol_iff_line:
  "\<forall>x\<in>set p. \<not> isLineTerminator (canonicalize x) \<Longrightarrow>
   ci_prefix p t \<and> eol (drop (length p) t)
     \<longleftrightarrow> ci_eq (takeWhile (\<lambda>c. \<not> isLineTerminator c) t) p"
proof (induction p arbitrary: t)
  case Nil
  show ?case by (cases t) (simp_all add: eol_def)
next
  case (Cons x xs)
  show ?case
  proof (cases t)
    case Nil
    then show ?thesis by (simp add: ci_prefix_Cons)
  next
    case (Cons c cs)
    with Cons.prems Cons.IH [of cs] show ?thesis
      by (auto simp: ci_prefix_Cons [of x xs])
         (metis canonicalize_lineTerminator)
  qed
qed

lemma allowed_plain:
  "e \<in> set allowed \<Longrightarrow> \<forall>x\<in>set (js ''.'' @ e). \<not> isLineTerminator (canonicalize x)"
  by (auto simp: allowed_def js_simps isLineTerminator_def canonicalize_def)

lemma rests_tail_line:
  "rests tail t \<noteq> [] \<longleftrightarrow> is_extension (takeWhile (\<lambda>c. \<not> isLineTerminator c) t)"
proof -
  have "rests tail t \<noteq> [] \<longleftrightarrow>
    (\<exists>e\<in>set allowed. ci_prefix (js ''.'' @ e) t \<and> eol (drop (length (js ''.'' @ e)) t))"
    by (simp add: rests_tail js_simps)
  also have "\<dots> \<longleftrightarrow> (\<exists>e\<in>set allowed. ci_eq (takeWhile (\<lambda>c. \<not> isLineTerminator c) t) (js ''.'' @ e))"
    using prefix_eol_iff_line [OF allowed_plain] by blast
  finally show ?thesis by (simp add: is_extension_def list_ex_iff)
qed

lemma endsWith_ci_Cons:
  "endsWith_ci (c # l) p \<longleftrightarrow> ci_eq (c # l) p \<or> endsWith_ci l p"
proof -
  have len: "ci_eq a b \<Longrightarrow> length a = length b" for a b
    by (auto simp: ci_eq_def dest: map_eq_imp_length_eq)
  consider "length p \<le> length l" | "length p = Suc (length l)" | "length p > Suc (length l)"
    by linarith
  then show ?thesis
  proof cases
    case 1
    then show ?thesis by (auto simp: endsWith_ci_def Suc_diff_le dest: len)
  next
    case 2
    then show ?thesis by (auto simp: endsWith_ci_def)
  next
    case 3
    then show ?thesis by (auto simp: endsWith_ci_def dest: len)
  qed
qed

lemma line_accepted_Nil: "\<not> line_accepted []"
  by (simp add: line_accepted_def endsWith_ci_def list_ex_iff js_simps)

lemma line_accepted_Cons: "line_accepted (c # l) \<longleftrightarrow> is_extension (c # l) \<or> line_accepted l"
  by (auto simp: line_accepted_def is_extension_def list_ex_iff endsWith_ci_Cons)

lemma is_extension_Nil: "\<not> is_extension []"
  by (simp add: is_extension_def list_ex_iff js_simps)

lemma splitWhen_hd:
  "splitWhen P s = takeWhile (\<lambda>c. \<not> P c) s # tl (splitWhen P s)"
  by (induction s) (auto split: list.splits)

lemma anyTail_lines: "anyTail s = spec_accepts s"
proof (induction s)
  case Nil
  show ?case
    by (simp add: rests_tail_line is_extension_Nil spec_accepts_def splitLines_def line_accepted_Nil
        del: rests.simps)
next
  case (Cons c cs)
  obtain ls where ls: "splitWhen isLineTerminator cs = takeWhile (\<lambda>c. \<not> isLineTerminator c) cs # ls"
    using splitWhen_hd by blast
  show ?case
  proof (cases "isLineTerminator c")
    case True
    with Cons show ?thesis
      by (simp add: rests_tail_line is_extension_Nil spec_accepts_def splitLines_def
          line_accepted_Nil del: rests.simps)
  next
    case False
    with Cons ls show ?thesis
      by (auto simp add: rests_tail_line spec_accepts_def splitLines_def
          line_accepted_Cons simp del: rests.simps)
  qed
qed

subsection \<open>Single-line file names, storage and digits\<close>

lemma match_pattern_spec: "match pattern s = spec_accepts s"
  by (simp add: match_anyTail anyTail_lines)

lemma splitWhen_none: "\<forall>c\<in>set s. \<not> P c \<Longrightarrow> splitWhen P s = [s]"
  by (induction s) simp_all

lemma allowed_no_dot: "e \<in> set allowed \<Longrightarrow> ci_eq x e \<Longrightarrow> 0x2E \<notin> set x"
proof
  assume e: "e \<in> set allowed" and x: "ci_eq x e" and dot: "0x2E \<in> set x"
  from dot have "canonicalize 0x2E \<in> set (map canonicalize x)"
    by auto
  with x have "canonicalize 0x2E \<in> set (map canonicalize e)"
    by (simp add: ci_eq_def)
  with e show False
    by (auto simp: allowed_def js_simps canonicalize_def)
qed

lemma line_accepted_extension:
  assumes "line_accepted name"
  shows "spec_extension_allowed name"
proof -
  from assms obtain e where e: "e \<in> set allowed" and ends: "endsWith_ci name (js ''.'' @ e)"
    by (auto simp: line_accepted_def list_ex_iff)
  define k where "k = length name - length (js ''.'' @ e)"
  from ends have suf: "ci_eq (drop k name) (0x2E # e)"
    by (simp add: endsWith_ci_def k_def js_simps)
  then obtain d x where dx: "drop k name = d # x"
    by (cases "drop k name") auto
  with suf have d: "d = 0x2E" and x: "ci_eq x e"
    by (simp_all add: canonicalize_dot)
  have name: "name = take k name @ 0x2E # x"
    using dx d by (metis append_take_drop_id)
  have nodot: "0x2E \<notin> set x"
    using e x by (rule allowed_no_dot)
  have "rev name = rev x @ 0x2E # rev (take k name)"
    by (subst name) simp
  moreover have "takeWhile (\<lambda>c. c \<noteq> 0x2E) (rev x @ 0x2E # rev (take k name)) = rev x"
    using nodot by (subst takeWhile_append2) auto
  ultimately have "takeWhile (\<lambda>c. c \<noteq> 0x2E) (rev name) = rev x"
    by simp
  moreover have "0x2E \<in> set name"
    by (subst name) simp
  ultimately have "spec_extension name = Some x"
    by (simp add: spec_extension_def)
  with e x show ?thesis
    by (auto simp: spec_extension_allowed_def list_ex_iff)
qed

lemma single_line_extension_checked:
  assumes "\<forall>c\<in>set (originalname f). \<not> isLineTerminator c"
    and "getUser req = Inr u" and "truthy (userId u)"
    and "\<not> spec_extension_allowed (originalname f)"
  shows "fileFilter getUser req f cb = cb (CbError (UserInputError (js ''Unsupported file type'')))"
proof -
  have "spec_accepts (originalname f) = line_accepted (originalname f)"
    using assms(1) by (simp add: spec_accepts_def splitLines_def splitWhen_none)
  with assms(4) have "\<not> match pattern (originalname f)"
    using line_accepted_extension by (auto simp: match_pattern_spec)
  with assms(2,3) show ?thesis
    by (simp add: fileFilter_def)
qed

lemma fst_respond: "fst (respond handler r) = fst r"
  by (cases r) (simp add: respond_def split: upload_result.splits)

lemma fileFilter_no_destination:
  "destination f = None \<Longrightarrow>
   \<exists>r. fileFilter getUser req f (multer_cb now disk f) = Inr (disk, r)"
  by (simp add: fileFilter_def multer_cb_def handleFile_def join_def split: sum.splits)

lemma upload_single_no_destination:
  "destination f = None \<Longrightarrow> fst (upload_single field getUser now disk req (Some f)) = disk"
  using fileFilter_no_destination [of f getUser req now disk]
  by (auto simp add: upload_single_def)

lemma unat_code_unit: "m < 65536 \<Longrightarrow> unat (of_nat m :: code_unit) = m"
  by (subst unat_of_nat) simp

lemma decimalValue_digits: "decimalValue (digits n) = n"
proof (induction n rule: digits.induct)
  case (1 n)
  show ?case
  proof (cases "n < 10")
    case True
    then have "unat (of_nat (48 + n) :: code_unit) = 48 + n"
      by (intro unat_code_unit) simp
    with True show ?thesis
      by (subst digits.simps) (simp add: decimalValue_def)
  next
    case False
    have "n mod 10 < 10"
      by simp
    then have "unat (of_nat (48 + n mod 10) :: code_unit) = 48 + n mod 10"
      by (intro unat_code_unit) simp
    with False 1 show ?thesis
      by (subst digits.simps) (simp add: decimalValue_def)
  qed
qed

lemma upload_single_Attached:
  "upload_single field getUser now disk req (Some f) = (disk', Attached st) \<Longrightarrow>
   fieldname f = field \<and> stored_filename st = filename now f"
  by (auto simp add: upload_single_def fileFilter_def multer_cb_def handleFile_def Let_def
      split: if_splits sum.splits)

lemmas upload_eval = upload_single_def fileFilter_def multer_cb_def handleFile_def
  destination_def filename_def numberToString_def digits.simps Let_def

lemmas url_eval = pathToFileURL_def encodePathChar_def inPathPercentEncodeSet_def

text \<open>
  The two outcomes of the filter in terms of its own test of the file name.
\<close>

lemma fileFilter_tiers:
  assumes "getUser req = Inr u"
  shows "(\<not> truthy (userId u) \<longrightarrow>
            fileFilter getUser req f cb
              = (case cb (CbInclude False) of Inl e \<Rightarrow> cb (CbError e) | Inr r \<Rightarrow> Inr r)
          \<and> (fieldname f = field \<longrightarrow>
               upload_single field getUser now disk req (Some f)
                 = upload_single field getUser now disk req None))
       \<and> (truthy (userId u) \<and> \<not> match pattern (originalname f) \<longrightarrow>
            fileFilter getUser req f cb
              = cb (CbError (UserInputError (js ''Unsupported file type''))))
       \<and> (fileFilter getUser req f Inr = Inr (CbInclude False) \<longleftrightarrow> \<not> truthy (userId u))
       \<and> (fileFilter getUser req f Inr = Inr (CbError e) \<longleftrightarrow>
            truthy (userId u) \<and> \<not> match pattern (originalname f)
            \<and> e = UserInputError (js ''Unsupported file type''))"
  using assms
  by (auto simp add: fileFilter_def upload_single_def multer_cb_def)

subsection \<open>The claims\<close>

text \<open>
  C1. Without an identity the filter skips the file silently: it calls \<^verbatim>\<open>cb(null, false)\<close>
  and raises no error, here for a file whose extension is outside the list. With an
  identity, the error 'Unsupported file type' is due whenever the extension of the file name
  is outside the list. The filter raises it for the names of a single line
  (\<open>single_line_extension_checked\<close> above), but not for the two-line name below: its
  extension is \<^verbatim>\<open>exe\<close>, the filter does not call \<^verbatim>\<open>cb(error)\<close> with that error, and
  \<^verbatim>\<open>POST /img/\<close> stores the file and answers with its reference.
\<close>

theorem error_tier_missed_on_second_line:
  "fileFilter (\<lambda>_. Inr \<lparr>userId = Undefined\<rparr>) ()
     \<lparr>fieldname = js ''image'', originalname = js ''a.png'' @ [0x0A] @ js ''b.exe'',
      mimetype = js ''image/png'', content = [77, 90]\<rparr> Inr = Inr (CbInclude False)
   \<and> truthy (userId \<lparr>userId = Number 7\<rparr>)
   \<and> \<not> spec_extension_allowed (js ''a.png'' @ [0x0A] @ js ''b.exe'')
   \<and> fileFilter (\<lambda>_. Inr \<lparr>userId = Number 7\<rparr>) ()
     \<lparr>fieldname = js ''image'', originalname = js ''a.png'' @ [0x0A] @ js ''b.exe'',
      mimetype = js ''image/png'', content = [77, 90]\<rparr> Inr
       \<noteq> Inr (CbError (UserInputError (js ''Unsupported file type'')))
   \<and> post_img (\<lambda>_. Inr \<lparr>userId = Number 7\<rparr>) (js ''/app'') 1700000000000 Map.empty ()
     (Some \<lparr>fieldname = js ''image'', originalname = js ''a.png'' @ [0x0A] @ js ''b.exe'',
            mimetype = js ''image/png'', content = [77, 90]\<rparr>)
     = ([js ''public/img/image-1700000000000-a.png'' @ [0x0A] @ js ''b.exe'' \<mapsto> [77, 90]],
        Sent (js ''img/image-1700000000000-a.png%0Ab.exe''))"
proof -
  have silent: "fileFilter (\<lambda>_. Inr \<lparr>userId = Undefined\<rparr>) ()
     \<lparr>fieldname = js ''image'', originalname = js ''a.png'' @ [0x0A] @ js ''b.exe'',
      mimetype = js ''image/png'', content = [77, 90]\<rparr> Inr = Inr (CbInclude False)"
    by (simp add: fileFilter_def)
  have ext: "\<not> spec_extension_allowed (js ''a.png'' @ [0x0A] @ js ''b.exe'')"
    by (simp add: spec_extension_allowed_def spec_extension_def allowed_def ci_eq_def regex_eval)
  have accepted: "fileFilter (\<lambda>_. Inr \<lparr>userId = Number 7\<rparr>) ()
     \<lparr>fieldname = js ''image'', originalname = js ''a.png'' @ [0x0A] @ js ''b.exe'',
      mimetype = js ''image/png'', content = [77, 90]\<rparr> Inr = Inr (CbInclude True)"
    by (simp add: fileFilter_def regex_eval)
  have up: "upload_single (js ''image'') (\<lambda>_. Inr \<lparr>userId = Number 7\<rparr>) 1700000000000 Map.empty ()
     (Some \<lparr>fieldname = js ''image'', originalname = js ''a.png'' @ [0x0A] @ js ''b.exe'',
            mimetype = js ''image/png'', content = [77, 90]\<rparr>)
     = ([js ''public/img/image-1700000000000-a.png'' @ [0x0A] @ js ''b.exe'' \<mapsto> [77, 90]],
        Attached \<lparr>stored_destination = Some (js ''./public/img/''),
                  stored_filename = js ''image-1700000000000-a.png'' @ [0x0A] @ js ''b.exe'',
                  stored_path = js ''public/img/image-1700000000000-a.png'' @ [0x0A] @ js ''b.exe''\<rparr>)"
    by (simp add: upload_eval path_eval regex_eval)
  have ref: "img_handler (js ''/app'')
      (Some \<lparr>stored_destination = Some (js ''./public/img/''),
                  stored_filename = js ''image-1700000000000-a.png'' @ [0x0A] @ js ''b.exe'',
                  stored_path = js ''public/img/image-1700000000000-a.png'' @ [0x0A] @ js ''b.exe''\<rparr>)
      = js ''img/image-1700000000000-a.png%0Ab.exe''"
    by (simp add: img_handler_def url_eval path_eval js_simps utf8_def percentByte_def
        hexDigit_def slice_def Let_def)
  show ?thesis
    using silent ext accepted up ref by (simp add: post_img_def respond_def)
qed

text \<open>
  C2. For file names of a single line the filter refuses every extension outside the list
  (\<open>single_line_extension_checked\<close> above). It does not for a name with a line
  terminator: the extension of the two-line name below, what follows its last dot, is
  \<^verbatim>\<open>exe\<close>, and the filter accepts the file for a request with an identity.
\<close>

theorem second_line_extension_unchecked:
  "spec_extension (js ''a.png'' @ [0x0A] @ js ''b.exe'') = Some (js ''exe'')
   \<and> \<not> spec_extension_allowed (js ''a.png'' @ [0x0A] @ js ''b.exe'')
   \<and> fileFilter (\<lambda>_. Inr \<lparr>userId = Number 7\<rparr>) ()
        \<lparr>fieldname = js ''image'', originalname = js ''a.png'' @ [0x0A] @ js ''b.exe'',
         mimetype = js ''image/png'', content = []\<rparr> Inr = Inr (CbInclude True)"
  by (simp add: spec_extension_allowed_def spec_extension_def allowed_def ci_eq_def
      fileFilter_def regex_eval)

text \<open>
  C3. The destination follows the declared MIME type, the first match winning: a type that
  starts with \<^verbatim>\<open>image\<close> goes to the image directory; otherwise a type that starts with
  the OpenXML word-processing type, the legacy Word type or the PDF type goes to the
  document directory.
\<close>

theorem destination_by_mimetype:
  "(startsWith (mimetype f) (js ''image'') \<longrightarrow> destination f = Some (js ''./public/img/''))
   \<and> (\<not> startsWith (mimetype f) (js ''image'')
        \<and> (startsWith (mimetype f)
              (js ''application/vnd.openxmlformats-officedocument.wordprocessingml.document'')
            \<or> startsWith (mimetype f) (js ''application/msword'')
            \<or> startsWith (mimetype f) (js ''application/pdf''))
      \<longrightarrow> destination f = Some (js ''./public/document/''))"
  by (simp add: destination_def)

theorem destination_by_mimetype_witness:
  "destination \<lparr>fieldname = js ''image'', originalname = js ''cat.png'',
                 mimetype = js ''image/png'', content = []\<rparr> = Some (js ''./public/img/'')
   \<and> destination \<lparr>fieldname = js ''document'', originalname = js ''report.pdf'',
                 mimetype = js ''application/pdf'', content = []\<rparr> = Some (js ''./public/document/'')"
  using
    destination_by_mimetype [where f = "\<lparr>fieldname = js ''image'', originalname = js ''cat.png'',
                 mimetype = js ''image/png'', content = []\<rparr>"]
    destination_by_mimetype [where f = "\<lparr>fieldname = js ''document'', originalname = js ''report.pdf'',
                 mimetype = js ''application/pdf'', content = []\<rparr>"]
  by (simp add: startsWith_def js_simps)

text \<open>
  C4. A declared MIME type that starts with none of the four prefixes gets no directory,
  whatever the file name is, and neither endpoint writes anything for such an upload: the
  disk after the request is the disk before it.
\<close>

theorem unknown_mimetype_rejected:
  assumes "\<not> startsWith (mimetype f) (js ''image'')"
    and "\<not> startsWith (mimetype f)
            (js ''application/vnd.openxmlformats-officedocument.wordprocessingml.document'')"
    and "\<not> startsWith (mimetype f) (js ''application/msword'')"
    and "\<not> startsWith (mimetype f) (js ''application/pdf'')"
  shows "destination f = None
    \<and> fst (post_img getUser cwd now disk req (Some f)) = disk
    \<and> fst (post_document getUser cwd now disk req (Some f)) = disk"
proof -
  have "destination f = None"
    using assms by (simp add: destination_def)
  then show ?thesis
    by (simp add: post_img_def post_document_def fst_respond upload_single_no_destination)
qed


theorem unknown_mimetype_rejected_witness:
  "destination \<lparr>fieldname = js ''image'', originalname = js ''notes.png'',
                 mimetype = js ''text/plain'', content = [1, 2, 3]\<rparr> = None
   \<and> fst (post_img (\<lambda>_. Inr \<lparr>userId = Number 7\<rparr>) (js ''/app'') 1700000000000 Map.empty ()
          (Some \<lparr>fieldname = js ''image'', originalname = js ''notes.png'',
                 mimetype = js ''text/plain'', content = [1, 2, 3]\<rparr>)) = Map.empty"
  using unknown_mimetype_rejected [where f = "\<lparr>fieldname = js ''image'',
      originalname = js ''notes.png'', mimetype = js ''text/plain'', content = [1, 2, 3]\<rparr>"
      and getUser = "\<lambda>_. Inr \<lparr>userId = Number 7\<rparr>" and cwd = "js ''/app''"
      and now = 1700000000000 and disk = Map.empty and req = "()"]
  by (simp add: startsWith_def js_simps)

text \<open>
  C5. A request to \<^verbatim>\<open>POST /img/\<close> without an identity that attaches a file under the
  field \<^verbatim>\<open>image\<close> (a valid image or any other file) leaves the disk as it was, and its
  response is the string 'Image not attached'.
\<close>

theorem unauthenticated_img_upload:
  assumes "getUser req = Inr u" and "\<not> truthy (userId u)" and "fieldname f = js ''image''"
  shows "post_img getUser cwd now disk req (Some f) = (disk, Sent (js ''Image not attached''))"
  using assms
  by (simp add: post_img_def upload_single_def fileFilter_def multer_cb_def respond_def
      img_handler_def)

theorem unauthenticated_img_upload_witness:
  "post_img (\<lambda>_. Inr \<lparr>userId = Undefined\<rparr>) (js ''/app'') 1700000000000 Map.empty ()
     (Some \<lparr>fieldname = js ''image'', originalname = js ''cat.png'',
            mimetype = js ''image/png'', content = [137, 80, 78, 71]\<rparr>)
   = (Map.empty, Sent (js ''Image not attached''))"
  using unauthenticated_img_upload [where getUser = "\<lambda>_. Inr \<lparr>userId = Undefined\<rparr>"
      and req = "()" and u = "\<lparr>userId = Undefined\<rparr>" and cwd = "js ''/app''"
      and now = 1700000000000 and disk = Map.empty
      and f = "\<lparr>fieldname = js ''image'', originalname = js ''cat.png'',
                 mimetype = js ''image/png'', content = [137, 80, 78, 71]\<rparr>"]
  by simp

text \<open>
  C6. The generated file name is the field name, a hyphen, the time of the upload in
  milliseconds since the epoch, a hyphen, and the original file name as it came. For a
  stored upload the field name is the one the endpoint expects, and the time is written
  in decimal: reading the digits back gives the time.
\<close>

theorem generated_filename:
  "filename now f = fieldname f @ js ''-'' @ numberToString now @ js ''-'' @ originalname f
   \<and> (upload_single field getUser now disk req (Some f) = (disk', Attached st) \<longrightarrow>
        stored_filename st = field @ js ''-'' @ numberToString now @ js ''-'' @ originalname f)
   \<and> (0 \<le> now \<longrightarrow> int (decimalValue (numberToString now)) = now)"
  using upload_single_Attached [of field getUser now disk req f disk' st]
  by (auto simp add: filename_def numberToString_def decimalValue_digits)

theorem generated_filename_witness:
  "upload_single (js ''image'') (\<lambda>_. Inr \<lparr>userId = Number 7\<rparr>) 1700000000000 Map.empty ()
     (Some \<lparr>fieldname = js ''image'', originalname = js ''cat.PNG'',
            mimetype = js ''image/png'', content = [137, 80, 78, 71]\<rparr>)
   = ([js ''public/img/image-1700000000000-cat.PNG'' \<mapsto> [137, 80, 78, 71]],
      Attached \<lparr>stored_destination = Some (js ''./public/img/''),
                stored_filename = js ''image-1700000000000-cat.PNG'',
                stored_path = js ''public/img/image-1700000000000-cat.PNG''\<rparr>)
   \<and> js ''image-1700000000000-cat.PNG''
       = js ''image'' @ js ''-'' @ numberToString 1700000000000 @ js ''-'' @ js ''cat.PNG''
   \<and> int (decimalValue (numberToString 1700000000000)) = 1700000000000"
proof -
  have up: "upload_single (js ''image'') (\<lambda>_. Inr \<lparr>userId = Number 7\<rparr>) 1700000000000 Map.empty ()
     (Some \<lparr>fieldname = js ''image'', originalname = js ''cat.PNG'',
            mimetype = js ''image/png'', content = [137, 80, 78, 71]\<rparr>)
   = ([js ''public/img/image-1700000000000-cat.PNG'' \<mapsto> [137, 80, 78, 71]],
      Attached \<lparr>stored_destination = Some (js ''./public/img/''),
                stored_filename = js ''image-1700000000000-cat.PNG'',
                stored_path = js ''public/img/image-1700000000000-cat.PNG''\<rparr>)"
    by (simp add: upload_eval path_eval regex_eval)
  show ?thesis
    using up generated_filename [where field = "js ''image''"
      and getUser = "\<lambda>_. Inr \<lparr>userId = Number 7\<rparr>" and now = 1700000000000
      and disk = Map.empty and req = "()"
      and f = "\<lparr>fieldname = js ''image'', originalname = js ''cat.PNG'',
                 mimetype = js ''image/png'', content = [137, 80, 78, 71]\<rparr>"
      and disk' = "[js ''public/img/image-1700000000000-cat.PNG'' \<mapsto> [137, 80, 78, 71]]"
      and st = "\<lparr>stored_destination = Some (js ''./public/img/''),
                stored_filename = js ''image-1700000000000-cat.PNG'',
                stored_path = js ''public/img/image-1700000000000-cat.PNG''\<rparr>"]
    by simp
qed

text \<open>
  C7. The reference returned for a stored file starts at the first occurrence of the
  endpoint's word (\<^verbatim>\<open>img\<close> or \<^verbatim>\<open>document\<close>) in the file URL, which need not be the
  directory of the file. With the working directory \<^verbatim>\<open>/app\<close>, a PDF sent to
  \<^verbatim>\<open>POST /img/\<close> is stored in the document directory and the response is \<^verbatim>\<open>f\<close>, the
  last character of the URL; an image sent to \<^verbatim>\<open>POST /document/\<close> is stored in the image
  directory and the response is the bare file name. With the working directory
  \<^verbatim>\<open>/srv/imgstore\<close>, the response for an image sent to \<^verbatim>\<open>POST /img/\<close> starts inside
  the working directory.
\<close>

theorem reference_without_bucket_segment:
  "post_img (\<lambda>_. Inr \<lparr>userId = Number 7\<rparr>) (js ''/app'') 1700000000000 Map.empty ()
     (Some \<lparr>fieldname = js ''image'', originalname = js ''report.pdf'',
            mimetype = js ''application/pdf'', content = [37, 80, 68, 70]\<rparr>)
   = ([js ''public/document/image-1700000000000-report.pdf'' \<mapsto> [37, 80, 68, 70]],
      Sent (js ''f''))
   \<and> post_document (\<lambda>_. Inr \<lparr>userId = Number 7\<rparr>) (js ''/app'') 1700000000000 Map.empty ()
     (Some \<lparr>fieldname = js ''document'', originalname = js ''cat.png'',
            mimetype = js ''image/png'', content = [137, 80, 78, 71]\<rparr>)
   = ([js ''public/img/document-1700000000000-cat.png'' \<mapsto> [137, 80, 78, 71]],
      Sent (js ''document-1700000000000-cat.png''))
   \<and> post_img (\<lambda>_. Inr \<lparr>userId = Number 7\<rparr>) (js ''/srv/imgstore'') 1700000000000 Map.empty ()
     (Some \<lparr>fieldname = js ''image'', originalname = js ''cat.png'',
            mimetype = js ''image/png'', content = [137, 80, 78, 71]\<rparr>)
   = ([js ''public/img/image-1700000000000-cat.png'' \<mapsto> [137, 80, 78, 71]],
      Sent (js ''imgstore/public/img/image-1700000000000-cat.png''))"
proof -
  have up1: "upload_single (js ''image'') (\<lambda>_. Inr \<lparr>userId = Number 7\<rparr>) 1700000000000 Map.empty ()
     (Some \<lparr>fieldname = js ''image'', originalname = js ''report.pdf'',
            mimetype = js ''application/pdf'', content = [37, 80, 68, 70]\<rparr>)
   = ([js ''public/document/image-1700000000000-report.pdf'' \<mapsto> [37, 80, 68, 70]],
      Attached \<lparr>stored_destination = Some (js ''./public/document/''),
                stored_filename = js ''image-1700000000000-report.pdf'',
                stored_path = js ''public/document/image-1700000000000-report.pdf''\<rparr>)"
    by (simp add: upload_eval path_eval regex_eval)
  have url1: "pathToFileURL (js ''/app'') (js ''public/document/image-1700000000000-report.pdf'')
     = js ''file:///app/public/document/image-1700000000000-report.pdf''"
    by (simp add: url_eval path_eval js_simps)
  have ref1: "img_handler (js ''/app'')
      (Some \<lparr>stored_destination = Some (js ''./public/document/''),
                stored_filename = js ''image-1700000000000-report.pdf'',
                stored_path = js ''public/document/image-1700000000000-report.pdf''\<rparr>) = js ''f''"
    by (simp add: img_handler_def url1) (simp add: js_simps startsWith_def slice_def)
  have up2: "upload_single (js ''document'') (\<lambda>_. Inr \<lparr>userId = Number 7\<rparr>) 1700000000000 Map.empty ()
     (Some \<lparr>fieldname = js ''document'', originalname = js ''cat.png'',
            mimetype = js ''image/png'', content = [137, 80, 78, 71]\<rparr>)
   = ([js ''public/img/document-1700000000000-cat.png'' \<mapsto> [137, 80, 78, 71]],
      Attached \<lparr>stored_destination = Some (js ''./public/img/''),
                stored_filename = js ''document-1700000000000-cat.png'',
                stored_path = js ''public/img/document-1700000000000-cat.png''\<rparr>)"
    by (simp add: upload_eval path_eval regex_eval)
  have url2: "pathToFileURL (js ''/app'') (js ''public/img/document-1700000000000-cat.png'')
     = js ''file:///app/public/img/document-1700000000000-cat.png''"
    by (simp add: url_eval path_eval js_simps)
  have ref2: "document_handler (js ''/app'')
      (Some \<lparr>stored_destination = Some (js ''./public/img/''),
                stored_filename = js ''document-1700000000000-cat.png'',
                stored_path = js ''public/img/document-1700000000000-cat.png''\<rparr>)
      = js ''document-1700000000000-cat.png''"
    by (simp add: document_handler_def url2) (simp add: js_simps startsWith_def slice_def)
  have up3: "upload_single (js ''image'') (\<lambda>_. Inr \<lparr>userId = Number 7\<rparr>) 1700000000000 Map.empty ()
     (Some \<lparr>fieldname = js ''image'', originalname = js ''cat.png'',
            mimetype = js ''image/png'', content = [137, 80, 78, 71]\<rparr>)
   = ([js ''public/img/image-1700000000000-cat.png'' \<mapsto> [137, 80, 78, 71]],
      Attached \<lparr>stored_destination = Some (js ''./public/img/''),
                stored_filename = js ''image-1700000000000-cat.png'',
                stored_path = js ''public/img/image-1700000000000-cat.png''\<rparr>)"
    by (simp add: upload_eval path_eval regex_eval)
  have url3: "pathToFileURL (js ''/srv/imgstore'') (js ''public/img/image-1700000000000-cat.png'')
     = js ''file:///srv/imgstore/public/img/image-1700000000000-cat.png''"
    by (simp add: url_eval path_eval js_simps)
  have ref3: "img_handler (js ''/srv/imgstore'')
      (Some \<lparr>stored_destination = Some (js ''./public/img/''),
                stored_filename = js ''image-1700000000000-cat.png'',
                stored_path = js ''public/img/image-1700000000000-cat.png''\<rparr>)
      = js ''imgstore/public/img/image-1700000000000-cat.png''"
    by (simp add: img_handler_def url3) (simp add: js_simps startsWith_def slice_def)
  show ?thesis
    by (simp add: post_img_def post_document_def up1 up2 up3 respond_def ref1 ref2 ref3)
qed

text \<open>
  C8. The pattern matches a file name exactly when one of its lines (the pieces between
  line terminators) ends, whatever the case, in a dot and one of gif, jpg, jpeg, bmp, png,
  pdf, docx, doc; so, for a request with an identity, the filter accepts the file exactly
  then. A file name of two lines is accepted for its first line, \<^verbatim>\<open>a.png\<close>, although
  the name as a whole ends in \<^verbatim>\<open>.exe\<close>.
\<close>

theorem extension_check_by_lines:
  "match pattern name = spec_accepts name
   \<and> (getUser req = Inr u \<and> truthy (userId u) \<longrightarrow>
        (fileFilter getUser req f Inr = Inr (CbInclude True)) = spec_accepts (originalname f))
   \<and> match pattern (js ''a.png'' @ [0x0A] @ js ''b.exe'')
   \<and> \<not> line_accepted (js ''a.png'' @ [0x0A] @ js ''b.exe'')"
proof -
  have lines: "match pattern s = spec_accepts s" for s
    by (simp add: match_anyTail anyTail_lines)
  have "match pattern (js ''a.png'' @ [0x0A] @ js ''b.exe'')"
    by (simp add: regex_eval)
  moreover have "\<not> line_accepted (js ''a.png'' @ [0x0A] @ js ''b.exe'')"
    by (simp add: line_accepted_def allowed_def endsWith_ci_def ci_eq_def js_simps
        canonicalize_def)
  ultimately show ?thesis
    by (auto simp add: lines fileFilter_def)
qed

theorem extension_check_by_lines_witness:
  "fileFilter (\<lambda>_. Inr \<lparr>userId = Number 7\<rparr>) ()
     \<lparr>fieldname = js ''image'', originalname = js ''a.png'' @ [0x0A] @ js ''b.exe'',
      mimetype = js ''image/png'', content = []\<rparr> Inr = Inr (CbInclude True)"
proof -
  have "spec_accepts (js ''a.png'' @ [0x0A] @ js ''b.exe'')"
    by (simp add: spec_accepts_def splitLines_def line_accepted_def allowed_def endsWith_ci_def
        ci_eq_def js_simps canonicalize_def isLineTerminator_def)
  then show ?thesis
    using extension_check_by_lines [where getUser = "\<lambda>_. Inr \<lparr>userId = Number 7\<rparr>"
      and req = "()" and u = "\<lparr>userId = Number 7\<rparr>"
      and f = "\<lparr>fieldname = js ''image'', originalname = js ''a.png'' @ [0x0A] @ js ''b.exe'',
                 mimetype = js ''image/png'', content = []\<rparr>"]
    by simp
qed

text \<open>
  C9. The filter does not read the declared MIME type: for every callback, changing the
  MIME type of the file changes nothing in what the filter does with the same request.
  The destination does depend on the MIME type.
\<close>

theorem fileFilter_ignores_mimetype:
  "fileFilter getUser req (f\<lparr>mimetype := m\<rparr>) cb = fileFilter getUser req f cb
   \<and> destination (f\<lparr>mimetype := js ''image/png''\<rparr>)
       \<noteq> destination (f\<lparr>mimetype := js ''application/pdf''\<rparr>)"
  by (simp add: fileFilter_def destination_def startsWith_def js_simps)

text \<open>
  C10. Whenever multer leaves \<^verbatim>\<open>req.file\<close> undefined on \<^verbatim>\<open>POST /document/\<close>, the
  response is the string 'Document not attached'; this is so when no file is attached and
  when the file under the field \<^verbatim>\<open>document\<close> is skipped for want of an identity. The
  string differs from the 'Image not attached' of \<^verbatim>\<open>POST /img/\<close>.
\<close>

theorem document_not_attached:
  "(upload_single (js ''document'') getUser now disk req part = (disk', NotAttached) \<longrightarrow>
      post_document getUser cwd now disk req part = (disk', Sent (js ''Document not attached'')))
   \<and> post_document getUser cwd now disk req None = (disk, Sent (js ''Document not attached''))
   \<and> (getUser req = Inr u \<and> \<not> truthy (userId u) \<and> fieldname f = js ''document'' \<longrightarrow>
      post_document getUser cwd now disk req (Some f)
        = (disk, Sent (js ''Document not attached'')))
   \<and> js ''Document not attached'' \<noteq> js ''Image not attached''"
  by (simp add: post_document_def upload_single_def fileFilter_def multer_cb_def respond_def
      document_handler_def js_simps)

theorem document_not_attached_witness:
  "post_document (\<lambda>_. Inr \<lparr>userId = Undefined\<rparr>) (js ''/app'') 1700000000000 Map.empty ()
     (Some \<lparr>fieldname = js ''document'', originalname = js ''report.pdf'',
            mimetype = js ''application/pdf'', content = [37, 80, 68, 70]\<rparr>)
   = (Map.empty, Sent (js ''Document not attached''))
   \<and> post_document (\<lambda>_. Inr \<lparr>userId = Number 7\<rparr>) (js ''/app'') 1700000000000 Map.empty ()
     (Some \<lparr>fieldname = js ''document'', originalname = [],
            mimetype = js ''application/pdf'', content = []\<rparr>)
   = (Map.empty, Sent (js ''Document not attached''))"
proof -
  have skipped: "upload_single (js ''document'') (\<lambda>_. Inr \<lparr>userId = Number 7\<rparr>) 1700000000000
     Map.empty () (Some \<lparr>fieldname = js ''document'', originalname = [],
            mimetype = js ''application/pdf'', content = []\<rparr>) = (Map.empty, NotAttached)"
    by (simp add: upload_single_def)
  show ?thesis
    using
      document_not_attached [where getUser = "\<lambda>_. Inr \<lparr>userId = Undefined\<rparr>"
        and req = "()" and u = "\<lparr>userId = Undefined\<rparr>" and cwd = "js ''/app''"
        and now = 1700000000000 and disk = Map.empty
        and f = "\<lparr>fieldname = js ''document'', originalname = js ''report.pdf'',
                   mimetype = js ''application/pdf'', content = [37, 80, 68, 70]\<rparr>"]
      document_not_attached [where getUser = "\<lambda>_. Inr \<lparr>userId = Number 7\<rparr>"
        and req = "()" and cwd = "js ''/app''" and disk' = Map.empty
        and now = 1700000000000 and disk = Map.empty
        and part = "Some \<lparr>fieldname = js ''document'', originalname = [],
                   mimetype = js ''application/pdf'', content = []\<rparr>"]
      skipped
    by simp
qed

end
